theory Spec2Isabelle
  imports Main "HOL-Library.Word" "HOL-Library.Multiset"
begin

unbundle bit_operations_syntax

section \<open>Environment and options (src/main.go, lines 77-93)\<close>

text \<open>
  The process environment is a finite map from variable names to values;
  \<^verbatim>\<open>os.LookupEnv\<close> is the lookup in that map. A variable that is set to the
  empty string is \<open>Some []\<close>, an unset one is \<open>None\<close>.
\<close>

type_synonym environ = "string \<rightharpoonup> string"

definition lookEnvWithDefault :: "environ \<Rightarrow> string \<Rightarrow> string \<Rightarrow> string" where
  "lookEnvWithDefault env key defValue =
     (case env key of Some v \<Rightarrow> v | None \<Rightarrow> defValue)"

record options =
  args :: "string list"
  format :: string
  debug :: bool
  rawCommand :: bool
  jsonFile :: string
  junitFile :: string
  noColor :: bool
  noSummary :: "string list"

text \<open>
  The options that \<^verbatim>\<open>setupFlags\<close> registers, with the default value of every
  flag; \<^verbatim>\<open>main\<close> then stores the positional arguments in \<^verbatim>\<open>args\<close>.
\<close>

definition setupFlags :: "environ \<Rightarrow> options" where
  "setupFlags env =
     \<lparr>args = [],
      format = lookEnvWithDefault env ''GOTESTSUM_FORMAT'' ''short'',
      debug = False,
      rawCommand = False,
      jsonFile = lookEnvWithDefault env ''GOTESTSUM_JSONFILE'' '''',
      junitFile = lookEnvWithDefault env ''GOTESTSUM_JUNITFILE'' '''',
      noColor = False,
      noSummary = []\<rparr>"

section \<open>Argument composition (src/main.go, lines 138-166)\<close>

definition pathFromEnv :: "environ \<Rightarrow> string \<Rightarrow> string" where
  "pathFromEnv env defaultPath = lookEnvWithDefault env ''TEST_DIRECTORY'' defaultPath"

text \<open>The \<^verbatim>\<open>range\<close> loop of \<^verbatim>\<open>hasJSONArg\<close>, returning at the first match.\<close>

fun hasJSONArg :: "string list \<Rightarrow> bool" where
  "hasJSONArg [] = False"
| "hasJSONArg (arg # rest) =
     (if arg = ''-json'' \<or> arg = ''--json'' then True else hasJSONArg rest)"

text \<open>
  The \<^verbatim>\<open>switch\<close> of \<^verbatim>\<open>goTestCmdArgs\<close> has two returning cases and one
  that only extends \<^verbatim>\<open>defaultArgs\<close>; when no case returns, control reaches the
  code after the switch, which appends the non-empty path of the environment to
  the arguments and puts \<^verbatim>\<open>defaultArgs\<close> in front.
\<close>

definition goTestCmdArgs :: "environ \<Rightarrow> options \<Rightarrow> string list" where
  "goTestCmdArgs env opts =
     (let args0 = args opts;
          defaultArgs = [''go'', ''test'']
      in if rawCommand opts then args0
         else if length args0 = 0 then defaultArgs @ [''-json'', pathFromEnv env ''./...'']
         else
           let defaultArgs' = (if \<not> hasJSONArg args0 then defaultArgs @ [''-json''] else defaultArgs);
               testPath = pathFromEnv env '''';
               args1 = (if testPath \<noteq> '''' then args0 @ [testPath] else args0)
           in defaultArgs' @ args1)"

section \<open>Summary sections (src/main.go, lines 198-214)\<close>

text \<open>
  The type \<^verbatim>\<open>testjson.Summary\<close> and its constants are declared in package
  \<^verbatim>\<open>testjson\<close>, outside \<^verbatim>\<open>main.go\<close>. The operator \<^verbatim>\<open>-=\<close> that
  \<^verbatim>\<open>summarizer\<close> applies to them is Go's arithmetic subtraction on an integer
  type, which wraps around at the width of the type. The constants are therefore
  a parameter of the model: four machine integers of some width \<open>'w\<close>.
\<close>

record 'summary summary_consts =
  SummarizeAll :: "'summary"
  SummarizeFailed :: "'summary"
  SummarizeSkipped :: "'summary"
  SummarizeErrors :: "'summary"

text \<open>One iteration of the loop: the \<^verbatim>\<open>switch item\<close> with its three cases.\<close>

definition summarizer_case :: "('w::len) word summary_consts \<Rightarrow> 'w word \<Rightarrow> string \<Rightarrow> 'w word" where
  "summarizer_case c summary item =
     (if item = ''failed'' then summary - SummarizeFailed c
      else if item = ''skipped'' then summary - SummarizeSkipped c
      else if item = ''errors'' then summary - SummarizeErrors c
      else summary)"

text \<open>The loop over \<^verbatim>\<open>opts.noSummary\<close>, from the value \<open>summary\<close>.\<close>

fun summarizer_loop :: "('w::len) word summary_consts \<Rightarrow> 'w word \<Rightarrow> string list \<Rightarrow> 'w word" where
  "summarizer_loop c summary [] = summary"
| "summarizer_loop c summary (item # rest) = summarizer_loop c (summarizer_case c summary item) rest"

text \<open>
  The value of the variable \<^verbatim>\<open>summary\<close> that the closure returned by
  \<^verbatim>\<open>summarizer\<close> captures and hands to \<^verbatim>\<open>testjson.PrintSummary\<close>.
\<close>

definition summarizer_summary :: "('w::len) word summary_consts \<Rightarrow> options \<Rightarrow> 'w word" where
  "summarizer_summary c opts = summarizer_loop c (SummarizeAll c) (noSummary opts)"

text \<open>
  \<^verbatim>\<open>summarizer\<close> itself: the closure, with \<^verbatim>\<open>testjson.PrintSummary\<close> as a
  parameter.
\<close>

definition summarizer ::
  "('w::len) word summary_consts \<Rightarrow> ('out \<Rightarrow> 'exec \<Rightarrow> 'w word \<Rightarrow> 'r) \<Rightarrow> options \<Rightarrow> 'out \<Rightarrow> 'exec \<Rightarrow> 'r" where
  "summarizer c PrintSummary opts = (\<lambda>out exec. PrintSummary out exec (summarizer_summary c opts))"

text \<open>
  Modelled from the spec: how a value of \<^verbatim>\<open>testjson.Summary\<close> is read as a set of
  sections is decided in package \<^verbatim>\<open>testjson\<close>, which is not part of
  \<^verbatim>\<open>main.go\<close>. The spec calls the value an enabled-sections bitmask and a flag
  set: a section is enabled when its flag has a bit in common with the value.
\<close>

definition enabled :: "'w::len word \<Rightarrow> 'w word \<Rightarrow> bool" where
  "enabled summary flag = (summary AND flag \<noteq> 0)"

text \<open>
  Modelled from the spec: the subset relation between two values of
  \<^verbatim>\<open>testjson.Summary\<close> read as sets of sections, which package \<^verbatim>\<open>testjson\<close>
  does not need and \<^verbatim>\<open>main.go\<close> does not define. On a bitmask, one value is
  within another when each of its bits is a bit of the other.
\<close>

definition within :: "'w::len word \<Rightarrow> 'w word \<Rightarrow> bool" where
  "within summary base = (summary AND NOT base = 0)"

text \<open>
  Modelled from the spec: the values of the constants of package \<^verbatim>\<open>testjson\<close>,
  which \<^verbatim>\<open>main.go\<close> only names. The spec describes a flag set over the sections
  skipped, failed and errors whose base value has all sections enabled: one bit for
  each section, and their union for \<^verbatim>\<open>SummarizeAll\<close>. The width is that of Go's
  \<^verbatim>\<open>int\<close> on a 64-bit platform.
\<close>

definition testjson_consts :: "64 word summary_consts" where
  "testjson_consts =
     \<lparr>SummarizeAll = 7, SummarizeFailed = 2, SummarizeSkipped = 1, SummarizeErrors = 4\<rparr>"

section \<open>Errors\<close>

text \<open>
  Go error values, as far as \<^verbatim>\<open>main.go\<close> tells them apart. The type switch of
  \<^verbatim>\<open>main\<close> looks at the dynamic type only: \<^verbatim>\<open>*exec.ExitError\<close> or anything
  else. An \<^verbatim>\<open>*exec.ExitError\<close> carries the state of the finished process, of
  which the model keeps the exit code (\<open>None\<close> when the process state holds
  none, as after a signal) and the text of \<^verbatim>\<open>Error()\<close>. The error that
  \<^verbatim>\<open>errors.Wrapf\<close> builds has a type of package \<^verbatim>\<open>errors\<close>, whatever its cause.
\<close>

datatype go_error =
    ExitError "int option" string
  | Wrapf go_error string
  | ErrorString string


text \<open>\<^verbatim>\<open>strings.Join\<close>.\<close>

fun Join :: "string list \<Rightarrow> string \<Rightarrow> string" where
  "Join [] sep = []"
| "Join [x] sep = x"
| "Join (x # y # ys) sep = x @ sep @ Join (y # ys) sep"

text \<open>A Go function either returns or panics.\<close>

datatype 'a outcome = Panic | Returns 'a

section \<open>Starting the child process (src/main.go, lines 168-196)\<close>

text \<open>
  The calls that leave the program are recorded, in the order in which they
  happen, as a list of events. What each call answers is given by a record of
  answers, one field for each call that can fail; \<open>None\<close> is the \<^verbatim>\<open>nil\<close> error.
  Calls to the logger are left out.
\<close>

datatype 'summary event =
    WithCancel
  | CommandContext string "string list"
  | StdoutPipe
  | StderrPipe
  | Start
  | NewEventHandler
  | ScanTestOutput
  | PrintSummary 'summary
  | WriteJUnitFile string
  | Wait
  | HandlerClose
  | Cancel

record answers =
  LookPath :: "string \<Rightarrow> string"
  StdoutPipe_err :: "go_error option"
  StderrPipe_err :: "go_error option"
  Start_err :: "go_error option"
  newEventHandler_err :: "go_error option"
  ScanTestOutput_err :: "go_error option"
  PrintSummary_err :: "go_error option"
  writeJUnitFile_err :: "go_error option"
  Wait_err :: "go_error option"

datatype reader = StdoutReader | StderrReader

record cmd =
  Path :: string
  Args :: "string list"

text \<open>
  The struct \<^verbatim>\<open>proc\<close>. Its field \<^verbatim>\<open>cancel\<close> is a function without result;
  the model keeps the event that calling it produces.
\<close>

record 'summary proc =
  cmd :: cmd
  stdout :: "reader option"
  stderr :: "reader option"
  cancel :: "'summary event"

text \<open>
  \<^verbatim>\<open>startGoTest\<close>. The expression \<^verbatim>\<open>args[0]\<close> is evaluated after
  \<^verbatim>\<open>context.WithCancel\<close> and before \<^verbatim>\<open>exec.CommandContext\<close> is called; on an
  empty slice it panics with an index out of range.
\<close>

fun startGoTest ::
  "answers \<Rightarrow> string list \<Rightarrow> 'summary event list \<times> ('summary proc \<times> go_error option) outcome" where
  "startGoTest w [] = ([WithCancel], Panic)"
| "startGoTest w (name # rest) =
     (let p = \<lparr>cmd = \<lparr>Path = LookPath w name, Args = name # rest\<rparr>,
                stdout = None, stderr = None, cancel = Cancel\<rparr>;
          tr = [WithCancel, CommandContext name rest, StdoutPipe]
      in case StdoutPipe_err w of
           Some err \<Rightarrow> (tr, Returns (p, Some err))
         | None \<Rightarrow>
            (let p = p\<lparr>stdout := Some StdoutReader\<rparr>;
                 tr = tr @ [StderrPipe]
             in case StderrPipe_err w of
                  Some err \<Rightarrow> (tr, Returns (p, Some err))
                | None \<Rightarrow>
                   (let p = p\<lparr>stderr := Some StderrReader\<rparr>;
                        tr = tr @ [Start]
                    in (tr, Returns (p, Start_err w)))))"

section \<open>The run (src/main.go, lines 105-136)\<close>

text \<open>
  Leaving \<^verbatim>\<open>run\<close> by a \<^verbatim>\<open>return\<close> statement: the deferred calls happen, the
  one deferred last first, and then the function returns. The list \<open>defers\<close>
  holds the deferred calls with the latest at its head.
\<close>

definition return_with ::
  "'summary event list \<Rightarrow> 'summary event list \<Rightarrow> go_error option
     \<Rightarrow> 'summary event list \<times> go_error option outcome" where
  "return_with defers tr err = (tr @ defers, Returns err)"

definition run ::
  "('w::len) word summary_consts \<Rightarrow> environ \<Rightarrow> answers \<Rightarrow> options
     \<Rightarrow> 'w word event list \<times> go_error option outcome" where
  "run c env w opts =
     (case startGoTest w (goTestCmdArgs env opts) of
        (tr, Panic) \<Rightarrow> (tr, Panic)
      | (tr, Returns (goTestProc, Some err)) \<Rightarrow>
          return_with [] tr
            (Some (Wrapf err
               (''failed to run '' @ Path (cmd goTestProc) @ '' '' @ Join (Args (cmd goTestProc)) '' '')))
      | (tr, Returns (goTestProc, None)) \<Rightarrow>
         (let defers = [cancel goTestProc];
              tr = tr @ [NewEventHandler]
          in case newEventHandler_err w of
               Some err \<Rightarrow> return_with defers tr (Some err)
             | None \<Rightarrow>
                (let defers = HandlerClose # defers;
                     tr = tr @ [ScanTestOutput]
                 in case ScanTestOutput_err w of
                      Some err \<Rightarrow> return_with defers tr (Some err)
                    | None \<Rightarrow>
                       (let tr = tr @ [PrintSummary (summarizer_summary c opts)]
                        in case PrintSummary_err w of
                             Some err \<Rightarrow> return_with defers tr (Some err)
                           | None \<Rightarrow>
                              (let tr = tr @ [WriteJUnitFile (junitFile opts)]
                               in case writeJUnitFile_err w of
                                    Some err \<Rightarrow> return_with defers tr (Some err)
                                  | None \<Rightarrow> return_with defers (tr @ [Wait]) (Wait_err w))))))"

section \<open>Exit status (src/main.go, lines 27-36)\<close>



section \<open>Example answers of the operating system\<close>

text \<open>Every call succeeds and the child process exits with status 0.\<close>

definition all_succeed :: answers where
  "all_succeed =
     \<lparr>LookPath = (\<lambda>name. ''/usr/local/go/bin/'' @ name),
      StdoutPipe_err = None, StderrPipe_err = None, Start_err = None,
      newEventHandler_err = None, ScanTestOutput_err = None, PrintSummary_err = None,
      writeJUnitFile_err = None, Wait_err = None\<rparr>"

text \<open>
  No executable of the given name is found: the command keeps the name as its
  path and \<^verbatim>\<open>Start\<close> returns an error.
\<close>

definition go_not_found :: answers where
  "go_not_found =
     \<lparr>LookPath = (\<lambda>name. name),
      StdoutPipe_err = None, StderrPipe_err = None,
      Start_err = Some (ErrorString ''exec: go: executable file not found in $PATH''),
      newEventHandler_err = None, ScanTestOutput_err = None, PrintSummary_err = None,
      writeJUnitFile_err = None, Wait_err = None\<rparr>"

section \<open>Properties of the argument composition\<close>

lemma hasJSONArg_iff: "hasJSONArg xs \<longleftrightarrow> ''-json'' \<in> set xs \<or> ''--json'' \<in> set xs"
  by (induction xs) auto

lemma hasJSONArg_append: "hasJSONArg (xs @ ys) \<longleftrightarrow> hasJSONArg xs \<or> hasJSONArg ys"
  by (auto simp: hasJSONArg_iff)

lemma goTestCmdArgs_has_json:
  assumes "\<not> rawCommand opts" and "args opts \<noteq> []" and "hasJSONArg (args opts)"
  shows "goTestCmdArgs env opts =
           [''go'', ''test''] @ args opts @
             (case env ''TEST_DIRECTORY'' of None \<Rightarrow> [] | Some p \<Rightarrow> if p = '''' then [] else [p])"
  using assms
  by (simp add: goTestCmdArgs_def pathFromEnv_def lookEnvWithDefault_def split: option.split)

text \<open>
  C1, as the claim states it, fails. With the single argument \<^verbatim>\<open>-json\<close>, no
  \<^verbatim>\<open>--raw-command\<close> and \<^verbatim>\<open>TEST_DIRECTORY\<close> unset, \<^verbatim>\<open>goTestCmdArgs\<close> returns
  \<^verbatim>\<open>go test -json\<close>, which is not the argument list, and composing once more
  over that result returns \<^verbatim>\<open>go test go test -json\<close>, which is not the first
  result.
\<close>

theorem goTestCmdArgs_flagged_counterexample:
  "\<not> rawCommand ((setupFlags Map.empty)\<lparr>args := [''-json'']\<rparr>)
   \<and> args ((setupFlags Map.empty)\<lparr>args := [''-json'']\<rparr>) \<noteq> []
   \<and> hasJSONArg (args ((setupFlags Map.empty)\<lparr>args := [''-json'']\<rparr>))
   \<and> goTestCmdArgs Map.empty ((setupFlags Map.empty)\<lparr>args := [''-json'']\<rparr>) = [''go'', ''test'', ''-json'']
   \<and> goTestCmdArgs Map.empty ((setupFlags Map.empty)\<lparr>args := [''-json'']\<rparr>)
        \<noteq> args ((setupFlags Map.empty)\<lparr>args := [''-json'']\<rparr>)
   \<and> goTestCmdArgs Map.empty ((setupFlags Map.empty)\<lparr>args :=
          goTestCmdArgs Map.empty ((setupFlags Map.empty)\<lparr>args := [''-json'']\<rparr>)\<rparr>)
        = [''go'', ''test'', ''go'', ''test'', ''-json'']
   \<and> goTestCmdArgs Map.empty ((setupFlags Map.empty)\<lparr>args :=
          goTestCmdArgs Map.empty ((setupFlags Map.empty)\<lparr>args := [''-json'']\<rparr>)\<rparr>)
        \<noteq> goTestCmdArgs Map.empty ((setupFlags Map.empty)\<lparr>args := [''-json'']\<rparr>)"
  by (simp add: goTestCmdArgs_def setupFlags_def pathFromEnv_def lookEnvWithDefault_def)

text \<open>
  C1, amended. When \<^verbatim>\<open>--raw-command\<close> is unset and the positional arguments are
  not empty and contain \<^verbatim>\<open>-json\<close> or \<^verbatim>\<open>--json\<close>, \<^verbatim>\<open>goTestCmdArgs\<close> returns the
  base command \<^verbatim>\<open>go test\<close>, then the positional arguments unchanged, then the
  value of \<^verbatim>\<open>TEST_DIRECTORY\<close> when that is set and not empty: no json flag is
  injected. The result contains a json flag again, so composing once more over
  it injects no flag either: it puts the base command in front of the first
  result and the path of the environment behind it.
\<close>

theorem goTestCmdArgs_flagged:
  assumes "\<not> rawCommand opts" and "args opts \<noteq> []" and "hasJSONArg (args opts)"
  shows "goTestCmdArgs env opts =
           [''go'', ''test''] @ args opts @
             (case env ''TEST_DIRECTORY'' of None \<Rightarrow> [] | Some p \<Rightarrow> if p = '''' then [] else [p])
         \<and> hasJSONArg (goTestCmdArgs env opts)
         \<and> goTestCmdArgs env (opts\<lparr>args := goTestCmdArgs env opts\<rparr>) =
             [''go'', ''test''] @ goTestCmdArgs env opts @
               (case env ''TEST_DIRECTORY'' of None \<Rightarrow> [] | Some p \<Rightarrow> if p = '''' then [] else [p])"
proof -
  let ?r = "goTestCmdArgs env opts"
  have once: "?r = [''go'', ''test''] @ args opts @
      (case env ''TEST_DIRECTORY'' of None \<Rightarrow> [] | Some p \<Rightarrow> if p = '''' then [] else [p])"
    using assms by (rule goTestCmdArgs_has_json)
  have flagged: "hasJSONArg ?r"
    using assms(3) by (subst once) (simp add: hasJSONArg_append)
  have nonempty: "?r \<noteq> []"
    by (subst once) simp
  have "goTestCmdArgs env (opts\<lparr>args := ?r\<rparr>) =
          [''go'', ''test''] @ args (opts\<lparr>args := ?r\<rparr>) @
            (case env ''TEST_DIRECTORY'' of None \<Rightarrow> [] | Some p \<Rightarrow> if p = '''' then [] else [p])"
    using assms(1) flagged nonempty by (intro goTestCmdArgs_has_json) simp_all
  then have twice: "goTestCmdArgs env (opts\<lparr>args := ?r\<rparr>) =
          [''go'', ''test''] @ ?r @
            (case env ''TEST_DIRECTORY'' of None \<Rightarrow> [] | Some p \<Rightarrow> if p = '''' then [] else [p])"
    by simp
  from once flagged twice show ?thesis by blast
qed

text \<open>
  C1, witness: the arguments \<^verbatim>\<open>-v --json\<close> with \<^verbatim>\<open>TEST_DIRECTORY=./pkg\<close>, and
  the composition over the result.
\<close>

theorem goTestCmdArgs_flagged_witness:
  "goTestCmdArgs [''TEST_DIRECTORY'' \<mapsto> ''./pkg''] ((setupFlags Map.empty)\<lparr>args := [''-v'', ''--json'']\<rparr>)
     = [''go'', ''test'', ''-v'', ''--json'', ''./pkg'']
   \<and> goTestCmdArgs [''TEST_DIRECTORY'' \<mapsto> ''./pkg'']
        ((setupFlags Map.empty)\<lparr>args := [''go'', ''test'', ''-v'', ''--json'', ''./pkg'']\<rparr>)
     = [''go'', ''test'', ''go'', ''test'', ''-v'', ''--json'', ''./pkg'', ''./pkg'']"
proof -
  let ?env = "[''TEST_DIRECTORY'' \<mapsto> ''./pkg'']"
  let ?opts = "(setupFlags Map.empty)\<lparr>args := [''-v'', ''--json'']\<rparr>"
  have h1: "\<not> rawCommand ?opts" by (simp add: setupFlags_def)
  have h2: "args ?opts \<noteq> []" by simp
  have h3: "hasJSONArg (args ?opts)" by simp
  note inst = goTestCmdArgs_flagged [OF h1 h2 h3, of ?env]
  from inst have once: "goTestCmdArgs ?env ?opts = [''go'', ''test'', ''-v'', ''--json'', ''./pkg'']"
    by simp
  from inst have "goTestCmdArgs ?env (?opts\<lparr>args := goTestCmdArgs ?env ?opts\<rparr>) =
      [''go'', ''test''] @ goTestCmdArgs ?env ?opts @ [''./pkg'']"
    by (elim conjE) simp
  then have "goTestCmdArgs ?env (?opts\<lparr>args := [''go'', ''test'', ''-v'', ''--json'', ''./pkg'']\<rparr>) =
      [''go'', ''test'', ''go'', ''test'', ''-v'', ''--json'', ''./pkg'', ''./pkg'']"
    unfolding once by simp
  with once show ?thesis by simp
qed

text \<open>
  C6. When \<^verbatim>\<open>--raw-command\<close> is unset and there is no positional argument,
  \<^verbatim>\<open>goTestCmdArgs\<close> returns exactly \<^verbatim>\<open>go test -json p\<close>, where \<open>p\<close> is the value
  of \<^verbatim>\<open>TEST_DIRECTORY\<close> when the variable is set (also when it is set to the
  empty string) and \<^verbatim>\<open>./...\<close> when it is not.
\<close>

theorem goTestCmdArgs_no_args:
  assumes "\<not> rawCommand opts" and "args opts = []"
  shows "goTestCmdArgs env opts =
           [''go'', ''test'', ''-json'',
            case env ''TEST_DIRECTORY'' of Some p \<Rightarrow> p | None \<Rightarrow> ''./...'']"
  using assms by (simp add: goTestCmdArgs_def pathFromEnv_def lookEnvWithDefault_def)

text \<open>
  C6, witness: the default options, with \<^verbatim>\<open>TEST_DIRECTORY\<close> unset and set.
\<close>

theorem goTestCmdArgs_no_args_witness:
  "goTestCmdArgs Map.empty (setupFlags Map.empty) = [''go'', ''test'', ''-json'', ''./...'']
   \<and> goTestCmdArgs [''TEST_DIRECTORY'' \<mapsto> ''./pkg''] (setupFlags Map.empty)
       = [''go'', ''test'', ''-json'', ''./pkg'']"
proof -
  have h1: "\<not> rawCommand (setupFlags Map.empty)" by (simp add: setupFlags_def)
  have h2: "args (setupFlags Map.empty) = []" by (simp add: setupFlags_def)
  show ?thesis
    using goTestCmdArgs_no_args [OF h1 h2, of Map.empty]
      goTestCmdArgs_no_args [OF h1 h2, of "[''TEST_DIRECTORY'' \<mapsto> ''./pkg'']"]
    by simp
qed

text \<open>
  C7. When \<^verbatim>\<open>--raw-command\<close> is set, \<^verbatim>\<open>goTestCmdArgs\<close> returns the positional
  arguments as they are, whatever the environment holds: nothing is put in
  front, no json flag is injected and no path is appended.
\<close>

theorem goTestCmdArgs_raw:
  assumes "rawCommand opts"
  shows "goTestCmdArgs env opts = args opts"
  using assms by (simp add: goTestCmdArgs_def)

text \<open>
  C7, witness: a raw command, with \<^verbatim>\<open>TEST_DIRECTORY\<close> set.
\<close>

theorem goTestCmdArgs_raw_witness:
  "goTestCmdArgs [''TEST_DIRECTORY'' \<mapsto> ''./pkg'']
     ((setupFlags Map.empty)\<lparr>args := [''gotest'', ''./...''], rawCommand := True\<rparr>)
   = [''gotest'', ''./...'']"
proof -
  have h: "rawCommand ((setupFlags Map.empty)\<lparr>args := [''gotest'', ''./...''], rawCommand := True\<rparr>)"
    by simp
  show ?thesis
    using goTestCmdArgs_raw [OF h, of "[''TEST_DIRECTORY'' \<mapsto> ''./pkg'']"] by simp
qed

section \<open>Properties of the summary sections\<close>

text \<open>A name that is none of the three recognized ones leaves the value as it is.\<close>

lemma summarizer_case_unrecognized:
  "item \<noteq> ''failed'' \<Longrightarrow> item \<noteq> ''skipped'' \<Longrightarrow> item \<noteq> ''errors'' \<Longrightarrow>
     summarizer_case c summary item = summary"
  by (simp add: summarizer_case_def)

lemma summarizer_loop_append:
  "summarizer_loop c summary (xs @ ys) = summarizer_loop c (summarizer_loop c summary xs) ys"
  by (induction xs arbitrary: summary) simp_all

text \<open>
  The loop subtracts each constant as often as its name occurs in the list.
\<close>

lemma summarizer_loop_closed_form:
  "summarizer_loop c summary xs =
     summary - of_nat (count_list xs ''failed'') * SummarizeFailed c
             - of_nat (count_list xs ''skipped'') * SummarizeSkipped c
             - of_nat (count_list xs ''errors'') * SummarizeErrors c"
  by (induction xs arbitrary: summary) (simp_all add: summarizer_case_def algebra_simps)

text \<open>The order of the entries does not matter.\<close>

lemma summarizer_loop_reorder:
  assumes "mset xs = mset ys"
  shows "summarizer_loop c summary xs = summarizer_loop c summary ys"
proof -
  have "count_list xs x = count_list ys x" for x
    using assms by (metis count_mset)
  then show ?thesis by (simp add: summarizer_loop_closed_form)
qed

text \<open>
  A repeated entry does matter, whatever the constants are, unless the constant
  of the repeated name is 0.
\<close>

lemma summarizer_loop_duplicate_failed:
  "summarizer_loop c summary [''failed'', ''skipped'', ''failed''] =
   summarizer_loop c summary [''failed'', ''skipped'']
   \<longleftrightarrow> SummarizeFailed c = 0"
  by (simp add: summarizer_case_def)

subsection \<open>Where subtraction is removal\<close>

text \<open>
  Subtracting a flag that is within the value clears its bits. So when the three
  constants are within \<^verbatim>\<open>SummarizeAll\<close> and have no bit in common, and no
  recognized name occurs twice in the list, the loop computes the base value
  without the named sections.
\<close>

lemma diff_flag_eq_clear:
  fixes a f :: "'w::len word"
  assumes "within f a"
  shows "a - f = a AND NOT f"
  using assms by (intro disjunctive_diff_eq_and_not) (simp add: within_def ac_simps)

lemma within_clear:
  fixes a f s :: "'w::len word"
  assumes "within s a" and "f AND s = 0"
  shows "within s (a AND NOT f)"
proof -
  have "s AND NOT (a AND NOT f) = (s AND NOT a) OR (s AND f)"
    by (simp add: bit_eq_iff bit_simps) blast
  then show ?thesis
    using assms by (simp add: within_def ac_simps)
qed

lemma diff_three_flags:
  fixes a f s e :: "'w::len word"
  assumes "within f a" and "within s a" and "within e a"
    and "f AND s = 0" and "f AND e = 0" and "s AND e = 0"
  shows "a - f - s - e = a AND NOT (f OR s OR e)"
proof -
  have 1: "a - f = a AND NOT f"
    using assms(1) by (rule diff_flag_eq_clear)
  have "within s (a AND NOT f)"
    using assms(2,4) by (rule within_clear)
  then have 2: "(a AND NOT f) - s = (a AND NOT f) AND NOT s"
    by (rule diff_flag_eq_clear)
  have "within e (a AND NOT f)"
    using assms(3,5) by (rule within_clear)
  then have "within e ((a AND NOT f) AND NOT s)"
    using assms(6) by (rule within_clear)
  then have 3: "((a AND NOT f) AND NOT s) - e = ((a AND NOT f) AND NOT s) AND NOT e"
    by (rule diff_flag_eq_clear)
  show ?thesis
    by (simp only: 1 2 3) (simp add: bit_eq_iff bit_simps)
qed

lemma of_nat_count_times:
  fixes f :: "'w::len word"
  assumes "count_list xs x \<le> 1"
  shows "of_nat (count_list xs x) * f = (if x \<in> set xs then f else 0)"
proof (cases "x \<in> set xs")
  case True
  then have "count_list xs x \<noteq> 0" by (simp add: count_list_0_iff)
  with assms have "count_list xs x = 1" by simp
  with True show ?thesis by simp
next
  case False
  then show ?thesis by (simp add: count_list_0_iff)
qed

lemma summarizer_loop_without_repetition:
  fixes c :: "'w::len word summary_consts"
  assumes "within (SummarizeFailed c) (SummarizeAll c)"
    and "within (SummarizeSkipped c) (SummarizeAll c)"
    and "within (SummarizeErrors c) (SummarizeAll c)"
    and "SummarizeFailed c AND SummarizeSkipped c = 0"
    and "SummarizeFailed c AND SummarizeErrors c = 0"
    and "SummarizeSkipped c AND SummarizeErrors c = 0"
    and "count_list xs ''failed'' \<le> 1"
    and "count_list xs ''skipped'' \<le> 1"
    and "count_list xs ''errors'' \<le> 1"
  shows "summarizer_loop c (SummarizeAll c) xs =
           SummarizeAll c AND NOT
             ((if ''failed'' \<in> set xs then SummarizeFailed c else 0)
              OR (if ''skipped'' \<in> set xs then SummarizeSkipped c else 0)
              OR (if ''errors'' \<in> set xs then SummarizeErrors c else 0))"
proof -
  let ?f = "if ''failed'' \<in> set xs then SummarizeFailed c else 0"
  let ?s = "if ''skipped'' \<in> set xs then SummarizeSkipped c else 0"
  let ?e = "if ''errors'' \<in> set xs then SummarizeErrors c else 0"
  have "summarizer_loop c (SummarizeAll c) xs = SummarizeAll c - ?f - ?s - ?e"
    using assms(7-9) by (simp only: summarizer_loop_closed_form of_nat_count_times)
  also have "\<dots> = SummarizeAll c AND NOT (?f OR ?s OR ?e)"
    using assms(1-6) by (intro diff_three_flags) (simp_all add: within_def)
  finally show ?thesis .
qed

subsection \<open>Where subtraction is not removal\<close>

text \<open>
  Subtracting a one-bit flag twice leaves that bit as it was: whatever the
  constants are, when the constant of \<^verbatim>\<open>failed\<close> is a single bit of
  \<^verbatim>\<open>SummarizeAll\<close>, the list \<^verbatim>\<open>failed,failed\<close> leaves the section enabled.
\<close>

lemma take_bit_diff_power_int:
  assumes "m \<le> n"
  shows "take_bit m ((x::int) - 2 ^ n) = take_bit m x"
proof -
  from assms have "(2::int) ^ m dvd 2 ^ n" by (simp add: le_imp_power_dvd)
  then have "(x - 2 ^ n) mod 2 ^ m = x mod 2 ^ m"
    by (metis dvd_imp_mod_0 diff_zero mod_diff_right_eq)
  then show ?thesis by (simp add: take_bit_eq_mod)
qed

lemma take_bit_diff_power_word:
  fixes a :: "'w::len word"
  shows "take_bit n (a - 2 ^ n) = take_bit n a"
  by transfer (simp only: take_bit_diff_power_int [OF min.cobounded2])

lemma bit_diff_double_flag:
  fixes a :: "'w::len word"
  shows "bit (a - 2 ^ k - 2 ^ k) k = bit a k"
proof -
  have "a - 2 ^ k - 2 ^ k = a - 2 ^ Suc k" by simp
  then show ?thesis
    by (metis take_bit_diff_power_word bit_take_bit_iff lessI)
qed

lemma summarizer_twice_enabled:
  fixes c :: "'w::len word summary_consts"
  assumes "SummarizeFailed c = 2 ^ k" and "enabled (SummarizeAll c) (SummarizeFailed c)"
  shows "enabled (summarizer_loop c (SummarizeAll c) [''failed'', ''failed'']) (SummarizeFailed c)"
proof -
  have single: "x AND 2 ^ k \<noteq> 0 \<longleftrightarrow> bit x k" for x :: "'w word"
    by (simp add: and_exp_eq_0_iff_not_bit)
  have "bit (SummarizeAll c) k"
    using assms by (simp add: enabled_def single)
  then have "bit (SummarizeAll c - 2 ^ k - 2 ^ k) k"
    by (simp only: bit_diff_double_flag)
  then show ?thesis
    using assms(1) by (simp add: summarizer_case_def enabled_def single del: power_Suc)
qed

text \<open>
  Subtracting a positive constant often enough passes zero: whatever the
  constants are, when \<^verbatim>\<open>SummarizeAll\<close> is not negative and the constant of
  \<^verbatim>\<open>errors\<close> is positive (as signed integers, which Go's \<^verbatim>\<open>int\<close> is), a list
  that repeats \<^verbatim>\<open>errors\<close> gives a negative value, and the sign bit is not a bit
  of \<^verbatim>\<open>SummarizeAll\<close>.
\<close>

lemma negative_outside_nonnegative:
  fixes r b :: "'w::len word"
  assumes "sint r < 0" and "0 \<le> sint b"
  shows "r AND NOT b \<noteq> 0"
proof -
  have "bit r (LENGTH('w) - Suc 0)"
    using assms(1) by (simp add: bit_last_iff)
  moreover have "\<not> bit b (LENGTH('w) - Suc 0)"
    using assms(2) by (simp add: bit_last_iff)
  ultimately have "bit (r AND NOT b) (LENGTH('w) - Suc 0)"
    by (simp add: bit_simps)
  then show ?thesis by auto
qed

lemma subtract_past_zero:
  fixes a e :: int
  assumes "0 \<le> a" and "0 < e"
  shows "a - int (nat (a div e) + 1) * e = a mod e - e"
proof -
  have "0 \<le> a div e" using assms by (simp add: pos_imp_zdiv_nonneg_iff)
  then have "int (nat (a div e) + 1) = a div e + 1" by simp
  then show ?thesis by (simp add: algebra_simps minus_div_mult_eq_mod [symmetric])
qed

lemma sint_subtract_past_zero:
  fixes a e :: "'w::len word"
  assumes "0 \<le> sint a" and "0 < sint e"
  shows "sint (a - of_nat (nat (sint a div sint e) + 1) * e) < 0"
proof -
  let ?n = "nat (sint a div sint e) + 1"
  let ?k = "sint a - int ?n * sint e"
  have k: "?k = sint a mod sint e - sint e"
    using assms by (rule subtract_past_zero)
  have "0 \<le> sint a mod sint e" and "sint a mod sint e < sint e"
    using assms(2) by simp_all
  with k have neg: "?k < 0" and low: "- sint e \<le> ?k" by linarith+
  have "sint e < 2 ^ (LENGTH('w) - 1)" by (rule sint_lt)
  with low have low': "- (2 ^ (LENGTH('w) - 1)) \<le> ?k" by linarith
  have "a - of_nat ?n * e = word_of_int ?k" by simp
  then have "sint (a - of_nat ?n * e) = signed_take_bit (LENGTH('w) - 1) ?k"
    by (simp only: sint_sbintrunc')
  also have "\<dots> = ?k"
    using low' neg by (intro signed_take_bit_int_eq_self) linarith+
  finally show ?thesis using neg by simp
qed

lemma summarizer_loop_replicate_errors:
  "summarizer_loop c summary (replicate n ''errors'') = summary - of_nat n * SummarizeErrors c"
  by (induction n arbitrary: summary) (simp_all add: summarizer_case_def algebra_simps)

lemma summarizer_leaves_base:
  fixes c :: "'w::len word summary_consts"
  assumes "0 \<le> sint (SummarizeAll c)" and "0 < sint (SummarizeErrors c)"
  shows "\<not> within (summarizer_loop c (SummarizeAll c)
            (replicate (nat (sint (SummarizeAll c) div sint (SummarizeErrors c)) + 1) ''errors''))
          (SummarizeAll c)"
  unfolding within_def summarizer_loop_replicate_errors
  using sint_subtract_past_zero [OF assms] assms(1) by (rule negative_outside_nonnegative)

subsection \<open>The code at the lists of the claims\<close>

text \<open>
  C2: the code at the lists of the claim. Suppressing \<^verbatim>\<open>failed,skipped\<close> and
  \<^verbatim>\<open>skipped,failed\<close> both give the value 4 (section errors alone), but
  \<^verbatim>\<open>failed,skipped,failed\<close> gives 7 - 2 - 1 - 2 = 2: section failed is enabled
  again and section errors is gone.
\<close>

theorem summarizer_duplicate_entry:
  "summarizer_summary testjson_consts ((setupFlags Map.empty)\<lparr>noSummary := [''failed'', ''skipped'']\<rparr>) = 4
   \<and> summarizer_summary testjson_consts ((setupFlags Map.empty)\<lparr>noSummary := [''skipped'', ''failed'']\<rparr>) = 4
   \<and> summarizer_summary testjson_consts
        ((setupFlags Map.empty)\<lparr>noSummary := [''failed'', ''skipped'', ''failed'']\<rparr>) = 2
   \<and> enabled (summarizer_summary testjson_consts
        ((setupFlags Map.empty)\<lparr>noSummary := [''failed'', ''skipped'', ''failed'']\<rparr>))
        (SummarizeFailed testjson_consts)
   \<and> \<not> enabled (summarizer_summary testjson_consts
        ((setupFlags Map.empty)\<lparr>noSummary := [''failed'', ''skipped'']\<rparr>))
        (SummarizeFailed testjson_consts)"
  by (simp add: summarizer_summary_def summarizer_case_def testjson_consts_def enabled_def)

text \<open>
  C3: the code at the lists \<^verbatim>\<open>errors,errors\<close> and \<^verbatim>\<open>skipped,skipped\<close>. After the
  entry \<^verbatim>\<open>errors\<close> the value is 3, within the base value 7; after the second
  it is 3 - 4, which wraps around to the value with every bit set, and that is
  not within the base value. After the entry \<^verbatim>\<open>skipped\<close> the value is 6, without
  section skipped; after the second it is 5, where section skipped is enabled
  again: processing an entry has added a section.
\<close>

theorem summarizer_outside_base:
  "summarizer_summary testjson_consts ((setupFlags Map.empty)\<lparr>noSummary := [''errors'']\<rparr>) = 3
   \<and> within (summarizer_summary testjson_consts ((setupFlags Map.empty)\<lparr>noSummary := [''errors'']\<rparr>))
        (SummarizeAll testjson_consts)
   \<and> summarizer_summary testjson_consts ((setupFlags Map.empty)\<lparr>noSummary := [''errors'', ''errors'']\<rparr>) = - 1
   \<and> \<not> within (summarizer_summary testjson_consts
          ((setupFlags Map.empty)\<lparr>noSummary := [''errors'', ''errors'']\<rparr>))
        (SummarizeAll testjson_consts)
   \<and> summarizer_summary testjson_consts ((setupFlags Map.empty)\<lparr>noSummary := [''skipped'']\<rparr>) = 6
   \<and> \<not> enabled (summarizer_summary testjson_consts
          ((setupFlags Map.empty)\<lparr>noSummary := [''skipped'']\<rparr>)) (SummarizeSkipped testjson_consts)
   \<and> summarizer_summary testjson_consts ((setupFlags Map.empty)\<lparr>noSummary := [''skipped'', ''skipped'']\<rparr>) = 5
   \<and> enabled (summarizer_summary testjson_consts
          ((setupFlags Map.empty)\<lparr>noSummary := [''skipped'', ''skipped'']\<rparr>)) (SummarizeSkipped testjson_consts)"
  by (simp add: summarizer_summary_def summarizer_case_def testjson_consts_def within_def enabled_def)

text \<open>
  C9: the code at the list \<^verbatim>\<open>failed,failed\<close>. The first entry removes section
  failed (value 5); the second entry, which names the same recognized section,
  gives 5 - 2 = 3, where section failed is enabled and section errors, which no
  entry names, is not.
\<close>

theorem summarizer_entry_not_removed:
  "summarizer_summary testjson_consts ((setupFlags Map.empty)\<lparr>noSummary := [''failed'']\<rparr>) = 5
   \<and> \<not> enabled (summarizer_summary testjson_consts
        ((setupFlags Map.empty)\<lparr>noSummary := [''failed'']\<rparr>)) (SummarizeFailed testjson_consts)
   \<and> summarizer_summary testjson_consts ((setupFlags Map.empty)\<lparr>noSummary := [''failed'', ''failed'']\<rparr>) = 3
   \<and> enabled (summarizer_summary testjson_consts
        ((setupFlags Map.empty)\<lparr>noSummary := [''failed'', ''failed'']\<rparr>)) (SummarizeFailed testjson_consts)
   \<and> \<not> enabled (summarizer_summary testjson_consts
        ((setupFlags Map.empty)\<lparr>noSummary := [''failed'', ''failed'']\<rparr>)) (SummarizeErrors testjson_consts)"
  by (simp add: summarizer_summary_def summarizer_case_def testjson_consts_def enabled_def)

section \<open>Properties of the process launcher and of the run\<close>

lemma startGoTest_cases:
  "startGoTest w as =
     (case as of
        [] \<Rightarrow> ([WithCancel], Panic)
      | name # rest \<Rightarrow>
          (case StdoutPipe_err w of
             Some err \<Rightarrow>
               ([WithCancel, CommandContext name rest, StdoutPipe],
                Returns (\<lparr>cmd = \<lparr>Path = LookPath w name, Args = name # rest\<rparr>,
                          stdout = None, stderr = None, cancel = Cancel\<rparr>, Some err))
           | None \<Rightarrow>
               (case StderrPipe_err w of
                  Some err \<Rightarrow>
                    ([WithCancel, CommandContext name rest, StdoutPipe, StderrPipe],
                     Returns (\<lparr>cmd = \<lparr>Path = LookPath w name, Args = name # rest\<rparr>,
                               stdout = Some StdoutReader, stderr = None, cancel = Cancel\<rparr>, Some err))
                | None \<Rightarrow>
                    ([WithCancel, CommandContext name rest, StdoutPipe, StderrPipe, Start],
                     Returns (\<lparr>cmd = \<lparr>Path = LookPath w name, Args = name # rest\<rparr>,
                               stdout = Some StdoutReader, stderr = Some StderrReader,
                               cancel = Cancel\<rparr>, Start_err w)))))"
  by (cases as) (simp_all add: Let_def split: option.split)

lemma startGoTest_no_Cancel: "Cancel \<notin> set (fst (startGoTest w as))"
  by (simp add: startGoTest_cases split: list.split option.split)

lemma startGoTest_cancel_field:
  "startGoTest w as = (tr, Returns (p, err)) \<Longrightarrow> cancel p = Cancel"
  by (auto simp: startGoTest_cases split: list.splits option.splits)

text \<open>
  C8. Where \<^verbatim>\<open>startGoTest\<close> starts the process, both pipes have been opened
  before, without error. When opening the pipe of standard output fails,
  \<^verbatim>\<open>startGoTest\<close> returns that error right after the attempt, without opening
  the other pipe and without starting the process; when opening the pipe of
  standard error fails, it returns that error right after the attempt, without
  starting the process.
\<close>

theorem startGoTest_pipes_before_start:
  assumes "startGoTest w as = (tr, res)"
  shows "(Start \<in> set tr \<longrightarrow>
            (\<exists>pre. tr = pre @ [Start] \<and> StdoutPipe \<in> set pre \<and> StderrPipe \<in> set pre \<and> Start \<notin> set pre)
            \<and> StdoutPipe_err w = None \<and> StderrPipe_err w = None)
       \<and> (as \<noteq> [] \<longrightarrow> StdoutPipe_err w = Some e \<longrightarrow>
            (\<exists>p. res = Returns (p, Some e)) \<and> last tr = StdoutPipe \<and> StderrPipe \<notin> set tr \<and> Start \<notin> set tr)
       \<and> (as \<noteq> [] \<longrightarrow> StdoutPipe_err w = None \<longrightarrow> StderrPipe_err w = Some e \<longrightarrow>
            (\<exists>p. res = Returns (p, Some e)) \<and> last tr = StderrPipe \<and> Start \<notin> set tr)"
  using assms
  by (auto simp: startGoTest_cases split: list.splits option.splits)

text \<open>
  C8, witness: opening the pipe of standard error fails, and every call succeeds.
\<close>

theorem startGoTest_pipes_before_start_witness:
  "startGoTest (all_succeed\<lparr>StderrPipe_err := Some (ErrorString ''too many open files'')\<rparr>)
       [''go'', ''test'', ''-json'', ''./...'']
     = ([WithCancel, CommandContext ''go'' [''test'', ''-json'', ''./...''], StdoutPipe, StderrPipe],
        Returns (\<lparr>cmd = \<lparr>Path = ''/usr/local/go/bin/go'', Args = [''go'', ''test'', ''-json'', ''./...'']\<rparr>,
                  stdout = Some StdoutReader, stderr = None, cancel = Cancel\<rparr>,
                 Some (ErrorString ''too many open files'')))
   \<and> Start \<notin> set [WithCancel, CommandContext ''go'' [''test'', ''-json'', ''./...''], StdoutPipe, StderrPipe]
   \<and> fst (startGoTest all_succeed [''go'', ''test'', ''-json'', ''./...''])
     = [WithCancel, CommandContext ''go'' [''test'', ''-json'', ''./...''], StdoutPipe, StderrPipe, Start]
   \<and> StdoutPipe_err all_succeed = None \<and> StderrPipe_err all_succeed = None"
proof -
  let ?w = "all_succeed\<lparr>StderrPipe_err := Some (ErrorString ''too many open files'')\<rparr>"
  let ?as = "[''go'', ''test'', ''-json'', ''./...'']"
  let ?tr = "[WithCancel, CommandContext ''go'' [''test'', ''-json'', ''./...''], StdoutPipe, StderrPipe]"
  let ?res = "Returns (\<lparr>cmd = \<lparr>Path = ''/usr/local/go/bin/go'', Args = ?as\<rparr>,
                  stdout = Some StdoutReader, stderr = None, cancel = Cancel\<rparr>,
                 Some (ErrorString ''too many open files''))"
  let ?res' = "Returns (\<lparr>cmd = \<lparr>Path = ''/usr/local/go/bin/go'', Args = ?as\<rparr>,
                  stdout = Some StdoutReader, stderr = Some StderrReader, cancel = Cancel\<rparr>, None)"
  have h: "startGoTest ?w ?as = (?tr, ?res)"
    by (simp add: all_succeed_def)
  have "?as \<noteq> []" and "StdoutPipe_err ?w = None"
    and "StderrPipe_err ?w = Some (ErrorString ''too many open files'')"
    by (simp_all add: all_succeed_def)
  with startGoTest_pipes_before_start [OF h, of "ErrorString ''too many open files''"]
  have failed: "Start \<notin> set ?tr" by blast
  have h': "startGoTest all_succeed ?as = (?tr @ [Start], ?res')"
    by (simp add: all_succeed_def)
  have "Start \<in> set (?tr @ [Start])" by simp
  with startGoTest_pipes_before_start [OF h']
  have started: "StdoutPipe_err all_succeed = None \<and> StderrPipe_err all_succeed = None" by blast
  from h failed h' started show ?thesis by simp
qed

lemma run_after_start:
  assumes "startGoTest w (goTestCmdArgs env opts) = (tr0, Returns (p, None))"
  shows "\<exists>mid err. run c env w opts = (tr0 @ mid @ [Cancel], Returns err) \<and> Cancel \<notin> set mid"
proof -
  have "cancel p = Cancel"
    using assms by (rule startGoTest_cancel_field)
  then show ?thesis
    using assms
    by (auto simp: run_def return_with_def Let_def split: option.splits)
qed

text \<open>
  When \<^verbatim>\<open>startGoTest\<close> returns an error, \<^verbatim>\<open>run\<close> returns it wrapped, before
  any call is deferred; when \<^verbatim>\<open>startGoTest\<close> panics, so does \<^verbatim>\<open>run\<close>.
\<close>

lemma run_start_failure:
  assumes "startGoTest w (goTestCmdArgs env opts) = (tr0, Returns (p, Some err))"
  shows "run c env w opts =
           (tr0, Returns (Some (Wrapf err
              (''failed to run '' @ Path (cmd p) @ '' '' @ Join (Args (cmd p)) '' ''))))"
  using assms by (simp add: run_def return_with_def)

lemma run_start_panic:
  assumes "startGoTest w (goTestCmdArgs env opts) = (tr0, Panic)"
  shows "run c env w opts = (tr0, Panic)"
  using assms by (simp add: run_def)

text \<open>
  C4, as the claim states it, fails on the path of a spawn failure. With the
  default options and no executable \<^verbatim>\<open>go\<close>, \<^verbatim>\<open>Start\<close> returns an error and
  \<^verbatim>\<open>run\<close> returns it wrapped; the cancellation handle has not been invoked.
\<close>

theorem run_cancel_counterexample:
  "run testjson_consts Map.empty go_not_found (setupFlags Map.empty) =
     ([WithCancel, CommandContext ''go'' [''test'', ''-json'', ''./...''], StdoutPipe, StderrPipe, Start],
      Returns (Some (Wrapf (ErrorString ''exec: go: executable file not found in $PATH'')
                       ''failed to run go go test -json ./...'')))
   \<and> Cancel \<notin> set (fst (run testjson_consts Map.empty go_not_found (setupFlags Map.empty)))"
  by (simp add: run_def return_with_def go_not_found_def setupFlags_def goTestCmdArgs_def
      pathFromEnv_def lookEnvWithDefault_def)

text \<open>
  C4, amended. In every execution of \<^verbatim>\<open>run\<close> in which \<^verbatim>\<open>startGoTest\<close> returns
  without error, whatever the later calls answer (success, failure of the
  handler setup, of the scan, of the summary, of the report file, or an error of
  \<^verbatim>\<open>Wait\<close>), \<^verbatim>\<open>run\<close> returns, and the cancellation handle is invoked exactly
  once, as the last call before \<^verbatim>\<open>run\<close> returns.
\<close>

theorem run_cancel_after_start:
  fixes c :: "'w::len word summary_consts" and p :: "'w word proc"
  assumes "run c env w opts = (tr, res)"
    and "snd (startGoTest w (goTestCmdArgs env opts)) = Returns (p, None)"
  shows "(\<exists>err. res = Returns err) \<and> count_list tr Cancel = 1 \<and> last tr = Cancel"
proof -
  obtain tr0 where start: "startGoTest w (goTestCmdArgs env opts) = (tr0, Returns (p, None))"
    using assms(2) by (cases "startGoTest w (goTestCmdArgs env opts) :: 'w word event list \<times> _") simp
  have "Cancel \<notin> set tr0"
    using startGoTest_no_Cancel [of w "goTestCmdArgs env opts"] start
    by (metis fst_conv)
  moreover obtain mid err where "run c env w opts = (tr0 @ mid @ [Cancel], Returns err)"
    and "Cancel \<notin> set mid"
    using run_after_start [OF start] by blast
  ultimately show ?thesis
    using assms(1) by (auto simp: count_list_0_iff)
qed

text \<open>
  C4, witness: the scan of the output fails after the process has started.
\<close>

theorem run_cancel_after_start_witness:
  "run testjson_consts Map.empty
       (all_succeed\<lparr>ScanTestOutput_err := Some (ErrorString ''invalid character'')\<rparr>)
       (setupFlags Map.empty)
     = ([WithCancel, CommandContext ''go'' [''test'', ''-json'', ''./...''], StdoutPipe, StderrPipe, Start,
         NewEventHandler, ScanTestOutput, HandlerClose, Cancel],
        Returns (Some (ErrorString ''invalid character'')))
   \<and> count_list [WithCancel, CommandContext ''go'' [''test'', ''-json'', ''./...''], StdoutPipe,
         StderrPipe, Start, NewEventHandler, ScanTestOutput, HandlerClose, Cancel :: 64 word event] Cancel = 1"
proof -
  let ?w = "all_succeed\<lparr>ScanTestOutput_err := Some (ErrorString ''invalid character'')\<rparr>"
  let ?tr = "[WithCancel, CommandContext ''go'' [''test'', ''-json'', ''./...''], StdoutPipe,
         StderrPipe, Start, NewEventHandler, ScanTestOutput, HandlerClose, Cancel :: 64 word event]"
  have args: "goTestCmdArgs Map.empty (setupFlags Map.empty) = [''go'', ''test'', ''-json'', ''./...'']"
    by (simp add: goTestCmdArgs_def setupFlags_def pathFromEnv_def lookEnvWithDefault_def)
  have h1: "run testjson_consts Map.empty ?w (setupFlags Map.empty)
      = (?tr, Returns (Some (ErrorString ''invalid character'')))"
    by (simp add: run_def return_with_def args all_succeed_def)
  have h2: "snd (startGoTest ?w (goTestCmdArgs Map.empty (setupFlags Map.empty)))
      = Returns (\<lparr>cmd = \<lparr>Path = ''/usr/local/go/bin/go'', Args = [''go'', ''test'', ''-json'', ''./...'']\<rparr>,
                  stdout = Some StdoutReader, stderr = Some StderrReader,
                  cancel = (Cancel :: 64 word event)\<rparr>, None)"
    by (simp add: args all_succeed_def)
  from run_cancel_after_start [OF h1 h2] have "count_list ?tr Cancel = 1" by blast
  with h1 show ?thesis by simp
qed

text \<open>
  C10. With \<^verbatim>\<open>--raw-command\<close> set and no positional argument,
  \<^verbatim>\<open>goTestCmdArgs\<close> returns the empty slice, \<^verbatim>\<open>startGoTest\<close> panics at
  \<^verbatim>\<open>args[0]\<close>, and so \<^verbatim>\<open>run\<close> panics instead of returning.
\<close>

theorem run_raw_no_args:
  assumes "rawCommand opts" and "args opts = []"
  shows "goTestCmdArgs env opts = []
       \<and> snd (startGoTest w (goTestCmdArgs env opts) ::
               'w::len word event list \<times> ('w word proc \<times> go_error option) outcome) = Panic
       \<and> snd (run (c :: 'w word summary_consts) env w opts) = Panic"
  using assms by (simp add: goTestCmdArgs_def run_def)

text \<open>
  C10, witness: the default options with \<^verbatim>\<open>--raw-command\<close>.
\<close>

theorem run_raw_no_args_witness:
  "goTestCmdArgs Map.empty ((setupFlags Map.empty)\<lparr>rawCommand := True\<rparr>) = []
   \<and> snd (run testjson_consts Map.empty all_succeed ((setupFlags Map.empty)\<lparr>rawCommand := True\<rparr>)) = Panic"
proof -
  have h1: "rawCommand ((setupFlags Map.empty)\<lparr>rawCommand := True\<rparr>)" by simp
  have h2: "args ((setupFlags Map.empty)\<lparr>rawCommand := True\<rparr>) = []" by (simp add: setupFlags_def)
  from run_raw_no_args [OF h1 h2, of Map.empty all_succeed testjson_consts]
  show ?thesis by blast
qed

section \<open>Properties of the exit status\<close>


end
